theory Spec2Isabelle
  imports Main "HOL-Library.Word" "HOL-Library.Sublist"
begin

section \<open>JavaScript values\<close>

text \<open>
  The values that flow through \<^verbatim>\<open>twitter.js\<close>: option objects, responses, file
  contents and errors. An object is the list of its own properties in insertion order;
  a lookup takes the first entry of a key. \<open>JNum\<close> carries the integral numbers the
  module itself produces (a file size, the segment index).
\<close>

datatype jsval =
    JUndefined
  | JNull
  | JBool bool
  | JNum int
  | JStr string
  | JBuffer "8 word list"
  | JError string
  | JObj "(string \<times> jsval) list"

text \<open>
  The property read \<^verbatim>\<open>v.k\<close>, for the keys the module reads
  (\<^verbatim>\<open>media_type\<close>, \<^verbatim>\<open>path_to_photo\<close>, \<^verbatim>\<open>media_id_string\<close>, \<^verbatim>\<open>size\<close>): on
  \<^verbatim>\<open>undefined\<close> and \<^verbatim>\<open>null\<close> it throws a TypeError, on an object it gives the
  property or \<^verbatim>\<open>undefined\<close>, on any other primitive it gives \<^verbatim>\<open>undefined\<close>.
\<close>

fun get_prop :: "jsval \<Rightarrow> string \<Rightarrow> jsval + jsval" where
  "get_prop JUndefined k = Inl (JError ''TypeError'')"
| "get_prop JNull k = Inl (JError ''TypeError'')"
| "get_prop (JObj fs) k = Inr (case map_of fs k of None \<Rightarrow> JUndefined | Some v \<Rightarrow> v)"
| "get_prop v k = Inr JUndefined"

section \<open>Promises, the transport and the file system\<close>

text \<open>
  A promise is modelled by how it eventually settles: fulfilled with a value, rejected
  with a reason, or never settled.
\<close>

datatype settle = Fulfil jsval | Reject jsval | Never

text \<open>What a \<^verbatim>\<open>then\<close>/\<^verbatim>\<open>catch\<close> callback returns: a promise or a plain value.\<close>

datatype ret = Promise settle | Plain jsval

datatype verb = GET | POST

text \<open>
  The observable events of a run, in the order they happen: a request handed to the
  transport (verb, endpoint path, options), the settling of the promise the transport
  returned for it, and a line written by \<^verbatim>\<open>console.log\<close>.
\<close>

datatype event =
    Request verb string jsval
  | Resolved jsval
  | Rejected jsval
  | Logged jsval

text \<open>
  The external collaborators are parameters. \<open>client_get\<close> and \<open>client_post\<close> are the
  two primitives of the wrapped client (\<^verbatim>\<open>client.get\<close>, \<^verbatim>\<open>client.post\<close>): given the
  events so far, the path and the options, a call either throws (\<open>Inl\<close>) or returns a
  promise (\<open>Inr\<close>). \<open>readFileSync\<close> and \<open>statSync\<close> are the two file-system queries of
  \<^verbatim>\<open>require('fs')\<close>: each throws or returns a value, independently of the other.
\<close>

record env =
  client_get :: "event list \<Rightarrow> string \<Rightarrow> jsval \<Rightarrow> jsval + settle"
  client_post :: "event list \<Rightarrow> string \<Rightarrow> jsval \<Rightarrow> jsval + settle"
  readFileSync :: "jsval \<Rightarrow> jsval + jsval"
  statSync :: "jsval \<Rightarrow> jsval + jsval"

text \<open>The events by which the promise of a request settles (none while it is pending).\<close>

fun settled :: "jsval + settle \<Rightarrow> event list" where
  "settled (Inr (Fulfil v)) = [Resolved v]"
| "settled (Inr (Reject e)) = [Rejected e]"
| "settled (Inr Never) = []"
| "settled (Inl e) = []"

text \<open>
  \<^verbatim>\<open>p.then(h)\<close>: the callback runs only once \<open>p\<close> is fulfilled, with the value of \<open>p\<close>;
  a throw inside it rejects the new promise, a returned promise is adopted, a returned
  plain value fulfils it. A rejected or pending \<open>p\<close> passes through and \<open>h\<close> never runs.
  The callback may change the state \<open>'s\<close> of the enclosing function call.
\<close>

fun promise_then ::
  "settle \<Rightarrow> (jsval \<Rightarrow> 's \<Rightarrow> (jsval + ret) \<times> 's) \<Rightarrow> 's \<Rightarrow> settle \<times> 's" where
  "promise_then (Fulfil v) h s =
     (case h v s of
        (Inl e, s') \<Rightarrow> (Reject e, s')
      | (Inr (Promise q), s') \<Rightarrow> (q, s')
      | (Inr (Plain x), s') \<Rightarrow> (Fulfil x, s'))"
| "promise_then (Reject e) h s = (Reject e, s)"
| "promise_then Never h s = (Never, s)"

text \<open>\<^verbatim>\<open>p.catch(h)\<close>: the same, with the callback on the rejection reason.\<close>

fun promise_catch ::
  "settle \<Rightarrow> (jsval \<Rightarrow> 's \<Rightarrow> (jsval + ret) \<times> 's) \<Rightarrow> 's \<Rightarrow> settle \<times> 's" where
  "promise_catch (Reject e) h s =
     (case h e s of
        (Inl e', s') \<Rightarrow> (Reject e', s')
      | (Inr (Promise q), s') \<Rightarrow> (q, s')
      | (Inr (Plain x), s') \<Rightarrow> (Fulfil x, s'))"
| "promise_catch (Fulfil v) h s = (Fulfil v, s)"
| "promise_catch Never h s = (Never, s)"

section \<open>The request facade\<close>

text \<open>
  Every method takes the options and the events so far, and gives what the call
  evaluates to (\<open>Inl\<close> a thrown error, \<open>Inr\<close> the returned promise) with the events
  extended.
\<close>

definition execute ::
  "env \<Rightarrow> string \<Rightarrow> jsval \<Rightarrow> event list \<Rightarrow> (jsval + settle) \<times> event list" where
  "execute env path options tr =
     (let r = client_get env tr path options
      in (r, tr @ Request GET path options # settled r))"

definition executePost ::
  "env \<Rightarrow> string \<Rightarrow> jsval \<Rightarrow> event list \<Rightarrow> (jsval + settle) \<times> event list" where
  "executePost env path options tr =
     (let r = client_post env tr path options
      in (r, tr @ Request POST path options # settled r))"

definition getRetweeters ::
  "env \<Rightarrow> jsval \<Rightarrow> event list \<Rightarrow> (jsval + settle) \<times> event list" where
  "getRetweeters env options tr = execute env ''statuses/retweeters/ids'' options tr"

definition getRetweets ::
  "env \<Rightarrow> jsval \<Rightarrow> event list \<Rightarrow> (jsval + settle) \<times> event list" where
  "getRetweets env options tr = execute env ''statuses/retweets'' options tr"

definition showTweet ::
  "env \<Rightarrow> jsval \<Rightarrow> event list \<Rightarrow> (jsval + settle) \<times> event list" where
  "showTweet env options tr = execute env ''statuses/show'' options tr"

definition showUserTweets ::
  "env \<Rightarrow> jsval \<Rightarrow> event list \<Rightarrow> (jsval + settle) \<times> event list" where
  "showUserTweets env options tr = execute env ''statuses/user_timeline'' options tr"

definition searchTweets ::
  "env \<Rightarrow> jsval \<Rightarrow> event list \<Rightarrow> (jsval + settle) \<times> event list" where
  "searchTweets env options tr = execute env ''search/tweets'' options tr"

definition searchUsers ::
  "env \<Rightarrow> jsval \<Rightarrow> event list \<Rightarrow> (jsval + settle) \<times> event list" where
  "searchUsers env options tr = execute env ''users/search'' options tr"

definition showUser ::
  "env \<Rightarrow> jsval \<Rightarrow> event list \<Rightarrow> (jsval + settle) \<times> event list" where
  "showUser env options tr = execute env ''users/show'' options tr"

definition postStatus ::
  "env \<Rightarrow> jsval \<Rightarrow> event list \<Rightarrow> (jsval + settle) \<times> event list" where
  "postStatus env options tr = executePost env ''statuses/update'' options tr"

definition sendMessage ::
  "env \<Rightarrow> jsval \<Rightarrow> event list \<Rightarrow> (jsval + settle) \<times> event list" where
  "sendMessage env options tr = executePost env ''direct_messages/events/new'' options tr"

section \<open>The media upload sequence\<close>

text \<open>
  The three local helpers of \<^verbatim>\<open>uploadPhoto\<close>, with the variables they capture
  (\<^verbatim>\<open>path\<close>, \<^verbatim>\<open>mediaSize\<close>, \<^verbatim>\<open>mediaType\<close>, \<^verbatim>\<open>mediaData\<close>) as arguments.
\<close>

definition initUpload ::
  "env \<Rightarrow> string \<Rightarrow> jsval \<Rightarrow> jsval \<Rightarrow> event list \<Rightarrow> (jsval + settle) \<times> event list" where
  "initUpload env path mediaSize mediaType tr =
     executePost env path
       (JObj [(''command'', JStr ''INIT''),
              (''total_bytes'', mediaSize),
              (''media_type'', mediaType)]) tr"

definition appendUpload ::
  "env \<Rightarrow> string \<Rightarrow> jsval \<Rightarrow> jsval \<Rightarrow> event list \<Rightarrow> (jsval + settle) \<times> event list" where
  "appendUpload env path mediaData mediaId tr =
     executePost env path
       (JObj [(''command'', JStr ''APPEND''),
              (''media_id'', mediaId),
              (''media'', mediaData),
              (''segment_index'', JNum 0)]) tr"

definition finalizeUpload ::
  "env \<Rightarrow> string \<Rightarrow> jsval \<Rightarrow> event list \<Rightarrow> (jsval + settle) \<times> event list" where
  "finalizeUpload env path mediaId tr =
     executePost env path
       (JObj [(''command'', JStr ''FINALIZE''),
              (''media_id'', mediaId)]) tr"

text \<open>A method call's result as the return value of a callback.\<close>

fun returned :: "(jsval + settle) \<times> 's \<Rightarrow> (jsval + ret) \<times> 's" where
  "returned (Inl e, s) = (Inl e, s)"
| "returned (Inr p, s) = (Inr (Promise p), s)"

text \<open>
  The callbacks of the chain. Their state is the local variable \<^verbatim>\<open>mediaId\<close> of the
  enclosing call, which the first callback assigns and the second reads, and the events.
\<close>

definition on_init ::
  "env \<Rightarrow> string \<Rightarrow> jsval \<Rightarrow> jsval \<Rightarrow> jsval \<times> event list \<Rightarrow> (jsval + ret) \<times> jsval \<times> event list" where
  "on_init env path mediaData response s =
     (case get_prop response ''media_id_string'' of
        Inl e \<Rightarrow> (Inl e, s)
      | Inr m \<Rightarrow>
          (case returned (appendUpload env path mediaData m (snd s)) of
             (r, tr') \<Rightarrow> (r, (m, tr'))))"

definition on_append ::
  "env \<Rightarrow> string \<Rightarrow> jsval \<Rightarrow> jsval \<times> event list \<Rightarrow> (jsval + ret) \<times> jsval \<times> event list" where
  "on_append env path response s =
     (case returned (finalizeUpload env path (fst s) (snd s)) of
        (r, tr') \<Rightarrow> (r, (fst s, tr')))"

definition on_error ::
  "jsval \<Rightarrow> jsval \<times> event list \<Rightarrow> (jsval + ret) \<times> jsval \<times> event list" where
  "on_error err s = (Inr (Plain JUndefined), (fst s, snd s @ [Logged err]))"

definition uploadPhoto ::
  "env \<Rightarrow> jsval \<Rightarrow> event list \<Rightarrow> (jsval + settle) \<times> event list" where
  "uploadPhoto env options tr =
     (let path = ''media/upload'' in
      case get_prop options ''media_type'' of
        Inl e \<Rightarrow> (Inl e, tr)
      | Inr mediaType \<Rightarrow>
      (case get_prop options ''path_to_photo'' of
        Inl e \<Rightarrow> (Inl e, tr)
      | Inr path_to_photo \<Rightarrow>
      (case readFileSync env path_to_photo of
        Inl e \<Rightarrow> (Inl e, tr)
      | Inr mediaData \<Rightarrow>
      (case statSync env path_to_photo of
        Inl e \<Rightarrow> (Inl e, tr)
      | Inr stats \<Rightarrow>
      (case get_prop stats ''size'' of
        Inl e \<Rightarrow> (Inl e, tr)
      | Inr mediaSize \<Rightarrow>
      (case initUpload env path mediaSize mediaType tr of
        (Inl e, tr1) \<Rightarrow> (Inl e, tr1)
      | (Inr p0, tr1) \<Rightarrow>
          (case promise_then p0 (on_init env path mediaData) (JUndefined, tr1) of
             (p1, s1) \<Rightarrow>
          (case promise_then p1 (on_append env path) s1 of
             (p2, s2) \<Rightarrow>
          (case promise_catch p2 on_error s2 of
             (p3, s3) \<Rightarrow> (Inr p3, snd s3))))))))))"

section \<open>Observations on a run\<close>

text \<open>The requests of a trace, in order: verb, path and options.\<close>

fun requests :: "event list \<Rightarrow> (verb \<times> string \<times> jsval) list" where
  "requests [] = []"
| "requests (Request vb p opts # es) = (vb, p, opts) # requests es"
| "requests (e # es) = requests es"

text \<open>The value of a field of a request body (\<^verbatim>\<open>undefined\<close> when it has none).\<close>

fun field :: "string \<Rightarrow> jsval \<Rightarrow> jsval" where
  "field k (JObj fs) = (case map_of fs k of None \<Rightarrow> JUndefined | Some v \<Rightarrow> v)"
| "field k v = JUndefined"

text \<open>The names of the fields of a request body.\<close>

fun field_names :: "jsval \<Rightarrow> string list" where
  "field_names (JObj fs) = map fst fs"
| "field_names v = []"

definition commands :: "event list \<Rightarrow> jsval list" where
  "commands tr = map (\<lambda>(vb, p, opts). field ''command'' opts) (requests tr)"

text \<open>
  A trace awaits its requests when a request is followed by another one only through
  the event that resolves its promise: the trace is a run of pairs of a request and its
  resolution, and the rest holds at most one request, at its head.
\<close>

fun awaited :: "event list \<Rightarrow> bool" where
  "awaited (Request vb p opts # Resolved v # es) = awaited es"
| "awaited (Request vb p opts # es) = (requests es = [])"
| "awaited (e # es) = (requests es = [])"
| "awaited [] = True"

text \<open>The three requests of the sequence, as the helpers build them.\<close>

abbreviation init_request :: "jsval \<Rightarrow> jsval \<Rightarrow> event" where
  "init_request mediaSize mediaType \<equiv>
     Request POST ''media/upload''
       (JObj [(''command'', JStr ''INIT''),
              (''total_bytes'', mediaSize),
              (''media_type'', mediaType)])"

abbreviation append_request :: "jsval \<Rightarrow> jsval \<Rightarrow> event" where
  "append_request mediaId mediaData \<equiv>
     Request POST ''media/upload''
       (JObj [(''command'', JStr ''APPEND''),
              (''media_id'', mediaId),
              (''media'', mediaData),
              (''segment_index'', JNum 0)])"

abbreviation finalize_request :: "jsval \<Rightarrow> event" where
  "finalize_request mediaId \<equiv>
     Request POST ''media/upload''
       (JObj [(''command'', JStr ''FINALIZE''),
              (''media_id'', mediaId)])"

section \<open>A mock transport and a one-file disk\<close>

text \<open>
  A transport that records nothing itself and answers the \<open>n\<close>-th request of a run with
  the \<open>n\<close>-th entry of a script (and never settles once the script is used up), and a
  disk holding one three-byte file whose size query answers 5, the two queries being
  independent.
\<close>

definition scripted ::
  "(jsval + settle) list \<Rightarrow> event list \<Rightarrow> string \<Rightarrow> jsval \<Rightarrow> jsval + settle" where
  "scripted script hist path options =
     (let n = length (requests hist)
      in if n < length script then script ! n else Inr Never)"

definition disk_read :: "jsval \<Rightarrow> jsval + jsval" where
  "disk_read file =
     (if file = JStr ''cat.png'' then Inr (JBuffer [137, 80, 78])
      else Inl (JError ''ENOENT''))"

definition disk_stat :: "jsval \<Rightarrow> jsval + jsval" where
  "disk_stat file =
     (if file = JStr ''cat.png'' then Inr (JObj [(''size'', JNum 5)])
      else Inl (JError ''ENOENT''))"

definition mock :: "(jsval + settle) list \<Rightarrow> env" where
  "mock script =
     \<lparr>client_get = scripted script, client_post = scripted script,
      readFileSync = disk_read, statSync = disk_stat\<rparr>"

definition cat_photo :: jsval where
  "cat_photo =
     JObj [(''media_type'', JStr ''image/png''),
           (''path_to_photo'', JStr ''cat.png''),
           (''alt_text'', JStr ''a cat'')]"

definition lost_photo :: jsval where
  "lost_photo =
     JObj [(''media_type'', JStr ''image/png''),
           (''path_to_photo'', JStr ''dog.png'')]"

definition session :: jsval where
  "session = JObj [(''media_id'', JNum 710511363345354753),
                   (''media_id_string'', JStr ''710511363345354753''),
                   (''expires_after_secs'', JNum 86400)]"

definition no_session :: jsval where
  "no_session = JObj [(''expires_after_secs'', JNum 86400)]"

section \<open>Case forms of the combinators\<close>

lemma promise_then_case:
  "promise_then p h s =
     (case p of
        Fulfil v \<Rightarrow>
          (case h v s of
             (Inl e, s') \<Rightarrow> (Reject e, s')
           | (Inr (Promise q), s') \<Rightarrow> (q, s')
           | (Inr (Plain x), s') \<Rightarrow> (Fulfil x, s'))
      | Reject e \<Rightarrow> (Reject e, s)
      | Never \<Rightarrow> (Never, s))"
  by (cases p) simp_all

lemma promise_catch_case:
  "promise_catch p h s =
     (case p of
        Reject e \<Rightarrow>
          (case h e s of
             (Inl e', s') \<Rightarrow> (Reject e', s')
           | (Inr (Promise q), s') \<Rightarrow> (q, s')
           | (Inr (Plain x), s') \<Rightarrow> (Fulfil x, s'))
      | Fulfil v \<Rightarrow> (Fulfil v, s)
      | Never \<Rightarrow> (Never, s))"
  by (cases p) simp_all

lemma returned_case:
  "returned rs =
     (case rs of (Inl e, s) \<Rightarrow> (Inl e, s) | (Inr p, s) \<Rightarrow> (Inr (Promise p), s))"
  by (cases rs rule: returned.cases) simp_all

lemma settled_case:
  "settled r =
     (case r of
        Inl e \<Rightarrow> []
      | Inr (Fulfil v) \<Rightarrow> [Resolved v]
      | Inr (Reject e) \<Rightarrow> [Rejected e]
      | Inr Never \<Rightarrow> [])"
  by (cases r rule: settled.cases) simp_all

lemmas facade_defs =
  getRetweeters_def getRetweets_def showTweet_def showUserTweets_def searchTweets_def
  searchUsers_def showUser_def postStatus_def sendMessage_def execute_def executePost_def
  Let_def

lemmas upload_defs =
  uploadPhoto_def initUpload_def appendUpload_def finalizeUpload_def executePost_def
  on_init_def on_append_def on_error_def commands_def Let_def
  promise_then_case promise_catch_case returned_case settled_case

lemmas mock_defs =
  mock_def scripted_def disk_read_def disk_stat_def cat_photo_def lost_photo_def
  session_def no_session_def

section \<open>The runs of the upload sequence\<close>

text \<open>
  Every run of \<open>uploadPhoto\<close> from an empty trace has one of these forms: it throws
  before any request; the INIT call throws or stays pending; INIT is rejected; the
  session identifier cannot be read off the INIT response; or APPEND is issued, and the
  run ends there or goes on to FINALIZE.
\<close>

lemma upload_run_shape:
  "(\<exists>e. uploadPhoto env options [] = (Inl e, [])) \<or>
   (\<exists>sz mt e. uploadPhoto env options [] = (Inl e, [init_request sz mt])) \<or>
   (\<exists>sz mt. uploadPhoto env options [] = (Inr Never, [init_request sz mt])) \<or>
   (\<exists>sz mt e. uploadPhoto env options [] =
      (Inr (Fulfil JUndefined), [init_request sz mt, Rejected e, Logged e])) \<or>
   (\<exists>sz mt r e. get_prop r ''media_id_string'' = Inl e \<and>
      uploadPhoto env options [] =
        (Inr (Fulfil JUndefined), [init_request sz mt, Resolved r, Logged e])) \<or>
   (\<exists>sz mt r m d res tl. get_prop r ''media_id_string'' = Inr m \<and>
      uploadPhoto env options [] =
        (Inr res, init_request sz mt # Resolved r # append_request m d # tl) \<and>
      (res = Never \<and> tl = [] \<or>
       (\<exists>e. res = Fulfil JUndefined \<and> tl = [Logged e]) \<or>
       (\<exists>e. res = Fulfil JUndefined \<and> tl = [Rejected e, Logged e]) \<or>
       (\<exists>r2. res = Never \<and> tl = [Resolved r2, finalize_request m]) \<or>
       (\<exists>r2 e. res = Fulfil JUndefined \<and>
          tl = [Resolved r2, finalize_request m, Logged e]) \<or>
       (\<exists>r2 e. res = Fulfil JUndefined \<and>
          tl = [Resolved r2, finalize_request m, Rejected e, Logged e]) \<or>
       (\<exists>r2 r3. res = Fulfil r3 \<and>
          tl = [Resolved r2, finalize_request m, Resolved r3])))"
  by (simp add: upload_defs split: sum.split settle.split prod.split ret.split)

lemma requests_settled: "requests (settled r) = []"
  by (cases r rule: settled.cases) simp_all

text \<open>The run in which every call resolves and the session identifier can be read.\<close>

lemma upload_all_resolved:
  assumes "get_prop options ''media_type'' = Inr mediaType"
    and "get_prop options ''path_to_photo'' = Inr file"
    and "readFileSync env file = Inr mediaData"
    and "statSync env file = Inr stats"
    and "get_prop stats ''size'' = Inr mediaSize"
    and "client_post env [] ''media/upload''
      (JObj [(''command'', JStr ''INIT''), (''total_bytes'', mediaSize),
             (''media_type'', mediaType)]) = Inr (Fulfil r1)"
    and "get_prop r1 ''media_id_string'' = Inr mediaId"
    and "client_post env [init_request mediaSize mediaType, Resolved r1] ''media/upload''
      (JObj [(''command'', JStr ''APPEND''), (''media_id'', mediaId),
             (''media'', mediaData), (''segment_index'', JNum 0)]) = Inr (Fulfil r2)"
    and "client_post env
      [init_request mediaSize mediaType, Resolved r1,
       append_request mediaId mediaData, Resolved r2] ''media/upload''
      (JObj [(''command'', JStr ''FINALIZE''), (''media_id'', mediaId)]) = Inr (Fulfil r3)"
  shows "uploadPhoto env options [] =
      (Inr (Fulfil r3),
       [init_request mediaSize mediaType, Resolved r1,
        append_request mediaId mediaData, Resolved r2,
        finalize_request mediaId, Resolved r3])"
  using assms by (simp add: upload_defs)

section \<open>Runs against the mock transport\<close>

text \<open>
  The photo \<open>cat_photo\<close> uploaded against scripts of replies: all three calls resolve;
  the INIT response omits the session identifier; INIT is rejected; APPEND is rejected.
\<close>

lemma mock_upload_ok:
  "uploadPhoto (mock [Inr (Fulfil session), Inr (Fulfil JNull), Inr (Fulfil session)])
     cat_photo [] =
     (Inr (Fulfil session),
      [init_request (JNum 5) (JStr ''image/png''), Resolved session,
       append_request (JStr ''710511363345354753'') (JBuffer [137, 80, 78]), Resolved JNull,
       finalize_request (JStr ''710511363345354753''), Resolved session])"
  by (simp add: upload_defs mock_defs)

lemma mock_upload_no_session:
  "uploadPhoto (mock [Inr (Fulfil no_session), Inr (Fulfil JNull), Inr (Fulfil session)])
     cat_photo [] =
     (Inr (Fulfil session),
      [init_request (JNum 5) (JStr ''image/png''), Resolved no_session,
       append_request JUndefined (JBuffer [137, 80, 78]), Resolved JNull,
       finalize_request JUndefined, Resolved session])"
  by (simp add: upload_defs mock_defs)

lemma mock_upload_init_rejected:
  "uploadPhoto (mock [Inr (Reject (JError ''ECONNRESET''))]) cat_photo [] =
     (Inr (Fulfil JUndefined),
      [init_request (JNum 5) (JStr ''image/png''), Rejected (JError ''ECONNRESET''),
       Logged (JError ''ECONNRESET'')])"
  by (simp add: upload_defs mock_defs)

lemma mock_upload_append_rejected:
  "uploadPhoto (mock [Inr (Fulfil session), Inr (Reject (JError ''ECONNRESET''))])
     cat_photo [] =
     (Inr (Fulfil JUndefined),
      [init_request (JNum 5) (JStr ''image/png''), Resolved session,
       append_request (JStr ''710511363345354753'') (JBuffer [137, 80, 78]),
       Rejected (JError ''ECONNRESET''), Logged (JError ''ECONNRESET'')])"
  by (simp add: upload_defs mock_defs)

section \<open>Ordering of the three calls\<close>

text \<open>
  C1. On every run of \<open>uploadPhoto\<close> the commands of the requests issued are an initial
  part of INIT, APPEND, FINALIZE, in this order, each a POST to \<^verbatim>\<open>media/upload\<close>; a
  request is followed by another one only through the event that resolves its promise,
  so no APPEND or FINALIZE request is built before the INIT response has arrived; and
  when the file can be read and each of the three calls resolves, with the session
  identifier readable from the INIT response, the run is exactly INIT, its response,
  APPEND, its response, FINALIZE, its response.
\<close>

theorem upload_step_order:
  "prefix (commands (snd (uploadPhoto env options [])))
     [JStr ''INIT'', JStr ''APPEND'', JStr ''FINALIZE''] \<and>
   awaited (snd (uploadPhoto env options [])) \<and>
   (\<forall>(vb, p, body) \<in> set (requests (snd (uploadPhoto env options []))).
      vb = POST \<and> p = ''media/upload'') \<and>
   (get_prop options ''media_type'' = Inr mediaType \<and>
    get_prop options ''path_to_photo'' = Inr file \<and>
    readFileSync env file = Inr mediaData \<and>
    statSync env file = Inr stats \<and>
    get_prop stats ''size'' = Inr mediaSize \<and>
    client_post env [] ''media/upload''
      (JObj [(''command'', JStr ''INIT''), (''total_bytes'', mediaSize),
             (''media_type'', mediaType)]) = Inr (Fulfil r1) \<and>
    get_prop r1 ''media_id_string'' = Inr mediaId \<and>
    client_post env [init_request mediaSize mediaType, Resolved r1] ''media/upload''
      (JObj [(''command'', JStr ''APPEND''), (''media_id'', mediaId),
             (''media'', mediaData), (''segment_index'', JNum 0)]) = Inr (Fulfil r2) \<and>
    client_post env
      [init_request mediaSize mediaType, Resolved r1,
       append_request mediaId mediaData, Resolved r2] ''media/upload''
      (JObj [(''command'', JStr ''FINALIZE''), (''media_id'', mediaId)]) = Inr (Fulfil r3)
    \<longrightarrow>
    uploadPhoto env options [] =
      (Inr (Fulfil r3),
       [init_request mediaSize mediaType, Resolved r1,
        append_request mediaId mediaData, Resolved r2,
        finalize_request mediaId, Resolved r3]))"
proof (intro conjI impI)
  show "prefix (commands (snd (uploadPhoto env options [])))
     [JStr ''INIT'', JStr ''APPEND'', JStr ''FINALIZE'']"
    using upload_run_shape [of env options]
    by (elim disjE exE conjE) (simp_all add: commands_def)
  show "awaited (snd (uploadPhoto env options []))"
    using upload_run_shape [of env options]
    by (elim disjE exE conjE) simp_all
  show "\<forall>(vb, p, body) \<in> set (requests (snd (uploadPhoto env options []))).
      vb = POST \<and> p = ''media/upload''"
    using upload_run_shape [of env options]
    by (elim disjE exE conjE) simp_all
next
  assume a: "get_prop options ''media_type'' = Inr mediaType \<and>
    get_prop options ''path_to_photo'' = Inr file \<and>
    readFileSync env file = Inr mediaData \<and>
    statSync env file = Inr stats \<and>
    get_prop stats ''size'' = Inr mediaSize \<and>
    client_post env [] ''media/upload''
      (JObj [(''command'', JStr ''INIT''), (''total_bytes'', mediaSize),
             (''media_type'', mediaType)]) = Inr (Fulfil r1) \<and>
    get_prop r1 ''media_id_string'' = Inr mediaId \<and>
    client_post env [init_request mediaSize mediaType, Resolved r1] ''media/upload''
      (JObj [(''command'', JStr ''APPEND''), (''media_id'', mediaId),
             (''media'', mediaData), (''segment_index'', JNum 0)]) = Inr (Fulfil r2) \<and>
    client_post env
      [init_request mediaSize mediaType, Resolved r1,
       append_request mediaId mediaData, Resolved r2] ''media/upload''
      (JObj [(''command'', JStr ''FINALIZE''), (''media_id'', mediaId)]) = Inr (Fulfil r3)"
  show "uploadPhoto env options [] =
      (Inr (Fulfil r3),
       [init_request mediaSize mediaType, Resolved r1,
        append_request mediaId mediaData, Resolved r2,
        finalize_request mediaId, Resolved r3])"
    by (rule upload_all_resolved) (use a in blast)+
qed

theorem upload_step_order_witness:
  "commands (snd (uploadPhoto
      (mock [Inr (Fulfil session), Inr (Fulfil JNull), Inr (Fulfil session)]) cat_photo [])) =
     [JStr ''INIT'', JStr ''APPEND'', JStr ''FINALIZE''] \<and>
   awaited (snd (uploadPhoto
      (mock [Inr (Fulfil session), Inr (Fulfil JNull), Inr (Fulfil session)]) cat_photo [])) \<and>
   uploadPhoto
     (mock [Inr (Fulfil session), Inr (Fulfil JNull), Inr (Fulfil session)]) cat_photo [] =
     (Inr (Fulfil session),
      [init_request (JNum 5) (JStr ''image/png''), Resolved session,
       append_request (JStr ''710511363345354753'') (JBuffer [137, 80, 78]), Resolved JNull,
       finalize_request (JStr ''710511363345354753''), Resolved session])"
  using upload_step_order
    [of "mock [Inr (Fulfil session), Inr (Fulfil JNull), Inr (Fulfil session)]" cat_photo
        "JStr ''image/png''" "JStr ''cat.png''" "JBuffer [137, 80, 78]"
        "JObj [(''size'', JNum 5)]" "JNum 5" session "JStr ''710511363345354753''"
        JNull session]
  by (simp add: mock_defs commands_def)


section \<open>The session identifier\<close>

text \<open>
  C2. Whenever a run of \<open>uploadPhoto\<close> issues an APPEND or a FINALIZE request, the run
  began with the INIT request and its response, and the \<^verbatim>\<open>media_id\<close> field of that
  APPEND or FINALIZE request is the value read from the \<^verbatim>\<open>media_id_string\<close> field of
  the INIT response.
\<close>

theorem upload_media_id:
  assumes "(vb, p, body) \<in> set (requests (snd (uploadPhoto env options [])))"
    and "field ''command'' body = JStr ''APPEND'' \<or> field ''command'' body = JStr ''FINALIZE''"
  shows "\<exists>mediaSize mediaType response rest.
           snd (uploadPhoto env options []) =
             init_request mediaSize mediaType # Resolved response # rest \<and>
           get_prop response ''media_id_string'' = Inr (field ''media_id'' body)"
  using upload_run_shape [of env options] assms
  by (elim disjE exE conjE) auto

theorem upload_media_id_witness:
  "(POST, ''media/upload'',
      JObj [(''command'', JStr ''APPEND''), (''media_id'', JStr ''710511363345354753''),
            (''media'', JBuffer [137, 80, 78]), (''segment_index'', JNum 0)])
     \<in> set (requests (snd (uploadPhoto
          (mock [Inr (Fulfil session), Inr (Fulfil JNull), Inr (Fulfil session)]) cat_photo []))) \<and>
   (POST, ''media/upload'',
      JObj [(''command'', JStr ''FINALIZE''), (''media_id'', JStr ''710511363345354753'')])
     \<in> set (requests (snd (uploadPhoto
          (mock [Inr (Fulfil session), Inr (Fulfil JNull), Inr (Fulfil session)]) cat_photo []))) \<and>
   (\<exists>mediaSize mediaType rest.
      snd (uploadPhoto
          (mock [Inr (Fulfil session), Inr (Fulfil JNull), Inr (Fulfil session)]) cat_photo []) =
        init_request mediaSize mediaType # Resolved session # rest \<and>
      get_prop session ''media_id_string'' = Inr (JStr ''710511363345354753''))"
proof -
  let ?run = "uploadPhoto
          (mock [Inr (Fulfil session), Inr (Fulfil JNull), Inr (Fulfil session)]) cat_photo []"
  let ?a = "JObj [(''command'', JStr ''APPEND''), (''media_id'', JStr ''710511363345354753''),
            (''media'', JBuffer [137, 80, 78]), (''segment_index'', JNum 0)]"
  let ?f = "JObj [(''command'', JStr ''FINALIZE''), (''media_id'', JStr ''710511363345354753'')]"
  have a: "(POST, ''media/upload'', ?a) \<in> set (requests (snd ?run))"
    by (simp add: mock_upload_ok)
  have f: "(POST, ''media/upload'', ?f) \<in> set (requests (snd ?run))"
    by (simp add: mock_upload_ok)
  from upload_media_id [OF a] upload_media_id [OF f] a f show ?thesis
    by (simp add: mock_upload_ok)
qed

text \<open>
  C3, as stated, fails: with an INIT response that is an object without a
  \<^verbatim>\<open>media_id_string\<close> field, the read gives \<^verbatim>\<open>undefined\<close> and the chain goes
  on; APPEND and FINALIZE are issued with \<^verbatim>\<open>media_id\<close> undefined.
\<close>

theorem upload_missing_id_counterexample:
  "client_post (mock [Inr (Fulfil no_session), Inr (Fulfil JNull), Inr (Fulfil session)]) []
     ''media/upload''
     (JObj [(''command'', JStr ''INIT''), (''total_bytes'', JNum 5),
            (''media_type'', JStr ''image/png'')]) = Inr (Fulfil no_session) \<and>
   ''media_id_string'' \<notin> set (field_names no_session) \<and>
   commands (snd (uploadPhoto
     (mock [Inr (Fulfil no_session), Inr (Fulfil JNull), Inr (Fulfil session)]) cat_photo [])) =
     [JStr ''INIT'', JStr ''APPEND'', JStr ''FINALIZE''] \<and>
   snd (uploadPhoto
     (mock [Inr (Fulfil no_session), Inr (Fulfil JNull), Inr (Fulfil session)]) cat_photo []) ! 2 =
     append_request JUndefined (JBuffer [137, 80, 78])"
  by (simp add: mock_upload_no_session commands_def) (simp add: mock_defs)

text \<open>
  C3, amended. Let the file be readable and the INIT call resolve. If the response is
  \<^verbatim>\<open>undefined\<close> or \<^verbatim>\<open>null\<close>, reading \<^verbatim>\<open>media_id_string\<close> throws inside the chain:
  no APPEND request is issued, the TypeError is logged and the promise is fulfilled with
  \<^verbatim>\<open>undefined\<close>. If the response is any other value without a \<^verbatim>\<open>media_id_string\<close>
  field, the third event of the run is the APPEND request, with \<^verbatim>\<open>media_id\<close>
  undefined.
\<close>

theorem upload_missing_id:
  assumes "get_prop options ''media_type'' = Inr mediaType"
    and "get_prop options ''path_to_photo'' = Inr file"
    and "readFileSync env file = Inr mediaData"
    and "statSync env file = Inr stats"
    and "get_prop stats ''size'' = Inr mediaSize"
    and "client_post env [] ''media/upload''
      (JObj [(''command'', JStr ''INIT''), (''total_bytes'', mediaSize),
             (''media_type'', mediaType)]) = Inr (Fulfil response)"
  shows "(response = JUndefined \<or> response = JNull \<longrightarrow>
            uploadPhoto env options [] =
              (Inr (Fulfil JUndefined),
               [init_request mediaSize mediaType, Resolved response,
                Logged (JError ''TypeError'')])) \<and>
         (response \<noteq> JUndefined \<and> response \<noteq> JNull \<and>
          ''media_id_string'' \<notin> set (field_names response) \<longrightarrow>
            take 3 (snd (uploadPhoto env options [])) =
              [init_request mediaSize mediaType, Resolved response,
               append_request JUndefined mediaData])"
proof (intro conjI impI)
  assume "response = JUndefined \<or> response = JNull"
  with assms show "uploadPhoto env options [] =
              (Inr (Fulfil JUndefined),
               [init_request mediaSize mediaType, Resolved response,
                Logged (JError ''TypeError'')])"
    by (auto simp: upload_defs)
next
  assume "response \<noteq> JUndefined \<and> response \<noteq> JNull \<and>
          ''media_id_string'' \<notin> set (field_names response)"
  then have "get_prop response ''media_id_string'' = Inr JUndefined"
    by (cases response) (auto simp: map_of_eq_None_iff [THEN iffD2])
  with assms show "take 3 (snd (uploadPhoto env options [])) =
              [init_request mediaSize mediaType, Resolved response,
               append_request JUndefined mediaData]"
    by (simp add: upload_defs split: sum.split settle.split)
qed

theorem upload_missing_id_witness:
  "uploadPhoto (mock [Inr (Fulfil JNull), Inr (Fulfil JNull), Inr (Fulfil session)])
     cat_photo [] =
     (Inr (Fulfil JUndefined),
      [init_request (JNum 5) (JStr ''image/png''), Resolved JNull,
       Logged (JError ''TypeError'')]) \<and>
   take 3 (snd (uploadPhoto
     (mock [Inr (Fulfil no_session), Inr (Fulfil JNull), Inr (Fulfil session)]) cat_photo [])) =
     [init_request (JNum 5) (JStr ''image/png''), Resolved no_session,
      append_request JUndefined (JBuffer [137, 80, 78])]"
  using
    upload_missing_id
      [of cat_photo "JStr ''image/png''" "JStr ''cat.png''"
          "mock [Inr (Fulfil JNull), Inr (Fulfil JNull), Inr (Fulfil session)]"
          "JBuffer [137, 80, 78]" "JObj [(''size'', JNum 5)]" "JNum 5" JNull]
    upload_missing_id
      [of cat_photo "JStr ''image/png''" "JStr ''cat.png''"
          "mock [Inr (Fulfil no_session), Inr (Fulfil JNull), Inr (Fulfil session)]"
          "JBuffer [137, 80, 78]" "JObj [(''size'', JNum 5)]" "JNum 5" no_session]
  by (simp add: mock_defs)

section \<open>Failures\<close>

text \<open>
  C4. If the promise of a call of the sequence is rejected with \<open>e\<close>, the run ends
  right there: the trace ends with that request, its rejection and the log line of
  \<open>e\<close>, so no later call is issued. When the rejected call is INIT, it is the only
  request of the run (no APPEND, no FINALIZE); when it is APPEND, the requests of the
  run are INIT and APPEND (no FINALIZE).
\<close>

theorem rejection_stops_chain:
  assumes "Rejected e \<in> set (snd (uploadPhoto env options []))"
  shows "\<exists>pre body. snd (uploadPhoto env options []) =
            pre @ [Request POST ''media/upload'' body, Rejected e, Logged e] \<and>
          (field ''command'' body = JStr ''INIT'' \<longrightarrow>
             commands (snd (uploadPhoto env options [])) = [JStr ''INIT'']) \<and>
          (field ''command'' body = JStr ''APPEND'' \<longrightarrow>
             commands (snd (uploadPhoto env options [])) = [JStr ''INIT'', JStr ''APPEND''])"
  using upload_run_shape [of env options] assms
  by (elim disjE exE conjE) (auto simp: commands_def)

theorem rejection_stops_chain_witness:
  "Rejected (JError ''ECONNRESET'') \<in> set (snd (uploadPhoto
      (mock [Inr (Reject (JError ''ECONNRESET''))]) cat_photo [])) \<and>
   commands (snd (uploadPhoto (mock [Inr (Reject (JError ''ECONNRESET''))]) cat_photo [])) =
     [JStr ''INIT''] \<and>
   Rejected (JError ''ECONNRESET'') \<in> set (snd (uploadPhoto
      (mock [Inr (Fulfil session), Inr (Reject (JError ''ECONNRESET''))]) cat_photo [])) \<and>
   commands (snd (uploadPhoto
      (mock [Inr (Fulfil session), Inr (Reject (JError ''ECONNRESET''))]) cat_photo [])) =
     [JStr ''INIT'', JStr ''APPEND'']"
proof -
  have i: "Rejected (JError ''ECONNRESET'') \<in> set (snd (uploadPhoto
      (mock [Inr (Reject (JError ''ECONNRESET''))]) cat_photo []))"
    by (simp add: mock_upload_init_rejected)
  have a: "Rejected (JError ''ECONNRESET'') \<in> set (snd (uploadPhoto
      (mock [Inr (Fulfil session), Inr (Reject (JError ''ECONNRESET''))]) cat_photo []))"
    by (simp add: mock_upload_append_rejected)
  from rejection_stops_chain [OF i] rejection_stops_chain [OF a] i a show ?thesis
    by (auto simp: mock_upload_init_rejected mock_upload_append_rejected)
qed






section \<open>The passthrough law of the facade\<close>

text \<open>
  C6. Each of the nine facade methods evaluates to exactly what its transport primitive
  gives (\<open>client_get\<close> for the seven read methods, \<open>client_post\<close> for the two write
  methods) on the method's fixed path and the caller's options, unmodified; the events it
  adds are that one request and the settling of its promise, which holds no further
  request.
\<close>

theorem facade_passthrough:
  "getRetweeters env options tr =
     (client_get env tr ''statuses/retweeters/ids'' options,
      tr @ Request GET ''statuses/retweeters/ids'' options #
        settled (client_get env tr ''statuses/retweeters/ids'' options)) \<and>
   getRetweets env options tr =
     (client_get env tr ''statuses/retweets'' options,
      tr @ Request GET ''statuses/retweets'' options #
        settled (client_get env tr ''statuses/retweets'' options)) \<and>
   showTweet env options tr =
     (client_get env tr ''statuses/show'' options,
      tr @ Request GET ''statuses/show'' options #
        settled (client_get env tr ''statuses/show'' options)) \<and>
   showUserTweets env options tr =
     (client_get env tr ''statuses/user_timeline'' options,
      tr @ Request GET ''statuses/user_timeline'' options #
        settled (client_get env tr ''statuses/user_timeline'' options)) \<and>
   searchTweets env options tr =
     (client_get env tr ''search/tweets'' options,
      tr @ Request GET ''search/tweets'' options #
        settled (client_get env tr ''search/tweets'' options)) \<and>
   searchUsers env options tr =
     (client_get env tr ''users/search'' options,
      tr @ Request GET ''users/search'' options #
        settled (client_get env tr ''users/search'' options)) \<and>
   showUser env options tr =
     (client_get env tr ''users/show'' options,
      tr @ Request GET ''users/show'' options #
        settled (client_get env tr ''users/show'' options)) \<and>
   postStatus env options tr =
     (client_post env tr ''statuses/update'' options,
      tr @ Request POST ''statuses/update'' options #
        settled (client_post env tr ''statuses/update'' options)) \<and>
   sendMessage env options tr =
     (client_post env tr ''direct_messages/events/new'' options,
      tr @ Request POST ''direct_messages/events/new'' options #
        settled (client_post env tr ''direct_messages/events/new'' options)) \<and>
   requests (settled r) = []"
  by (simp add: facade_defs requests_settled)

theorem facade_passthrough_witness:
  "showTweet (mock [Inr (Fulfil session)]) (JObj [(''id'', JStr ''123'')]) [] =
     (Inr (Fulfil session),
      [Request GET ''statuses/show'' (JObj [(''id'', JStr ''123'')]), Resolved session]) \<and>
   postStatus (mock [Inr (Fulfil session)]) (JObj [(''status'', JStr ''hello'')]) [] =
     (Inr (Fulfil session),
      [Request POST ''statuses/update'' (JObj [(''status'', JStr ''hello'')]),
       Resolved session])"
  using
    facade_passthrough [of "mock [Inr (Fulfil session)]" "JObj [(''id'', JStr ''123'')]" "[]"]
    facade_passthrough
      [of "mock [Inr (Fulfil session)]" "JObj [(''status'', JStr ''hello'')]" "[]"]
  by (simp add: mock_def scripted_def)


section \<open>The request bodies\<close>

text \<open>
  C7. On every run of \<open>uploadPhoto\<close>, whatever the file holds and whatever its size,
  each APPEND request carries \<^verbatim>\<open>segment_index\<close> 0, and at most one APPEND request is
  issued: the media is never split into several segments.
\<close>

theorem single_segment:
  "(\<forall>(vb, p, body) \<in> set (requests (snd (uploadPhoto env options []))).
      field ''command'' body = JStr ''APPEND'' \<longrightarrow> field ''segment_index'' body = JNum 0) \<and>
   length (filter (\<lambda>c. c = JStr ''APPEND'') (commands (snd (uploadPhoto env options [])))) \<le> 1"
  using upload_run_shape [of env options]
  by (elim disjE exE conjE) (simp_all add: commands_def)

theorem single_segment_witness:
  "(POST, ''media/upload'',
      JObj [(''command'', JStr ''APPEND''), (''media_id'', JStr ''710511363345354753''),
            (''media'', JBuffer [137, 80, 78]), (''segment_index'', JNum 0)])
     \<in> set (requests (snd (uploadPhoto
          (mock [Inr (Fulfil session), Inr (Fulfil JNull), Inr (Fulfil session)]) cat_photo []))) \<and>
   length (filter (\<lambda>c. c = JStr ''APPEND'') (commands (snd (uploadPhoto
          (mock [Inr (Fulfil session), Inr (Fulfil JNull), Inr (Fulfil session)]) cat_photo [])))) = 1"
  using single_segment
    [of "mock [Inr (Fulfil session), Inr (Fulfil JNull), Inr (Fulfil session)]" cat_photo]
  by (simp add: mock_upload_ok commands_def)

text \<open>
  C8. When the two fields of the options can be read and both file-system queries
  succeed, the first event of the run is the INIT request: a POST to \<^verbatim>\<open>media/upload\<close>
  whose body holds \<^verbatim>\<open>command\<close> INIT, \<^verbatim>\<open>total_bytes\<close> equal to the \<^verbatim>\<open>size\<close> that
  the size query \<open>statSync\<close> reports for the path (whatever buffer \<open>readFileSync\<close>
  returned), and \<^verbatim>\<open>media_type\<close> equal to the \<^verbatim>\<open>media_type\<close> of the options.
\<close>

theorem init_request_fields:
  assumes "get_prop options ''media_type'' = Inr mediaType"
    and "get_prop options ''path_to_photo'' = Inr file"
    and "readFileSync env file = Inr mediaData"
    and "statSync env file = Inr stats"
    and "get_prop stats ''size'' = Inr mediaSize"
  shows "take 1 (snd (uploadPhoto env options [])) =
           [Request POST ''media/upload''
              (JObj [(''command'', JStr ''INIT''),
                     (''total_bytes'', mediaSize),
                     (''media_type'', mediaType)])]"
  using assms by (simp add: upload_defs split: sum.split settle.split prod.split ret.split)

theorem init_request_fields_witness:
  "readFileSync (mock []) (JStr ''cat.png'') = Inr (JBuffer [137, 80, 78]) \<and>
   statSync (mock []) (JStr ''cat.png'') = Inr (JObj [(''size'', JNum 5)]) \<and>
   take 1 (snd (uploadPhoto (mock []) cat_photo [])) =
     [Request POST ''media/upload''
        (JObj [(''command'', JStr ''INIT''),
               (''total_bytes'', JNum 5),
               (''media_type'', JStr ''image/png'')])]"
  using init_request_fields
    [of cat_photo "JStr ''image/png''" "JStr ''cat.png''" "mock []" "JBuffer [137, 80, 78]"
        "JObj [(''size'', JNum 5)]" "JNum 5"]
  by (simp add: mock_defs)

text \<open>
  C9. When reading the file at \<^verbatim>\<open>options.path_to_photo\<close> throws (the file does not
  exist or cannot be read), or the read succeeds and the size query throws,
  \<open>uploadPhoto\<close> itself throws that error: the call does not return a promise, and no
  event is added to the trace, so none of the three requests is issued.
\<close>

theorem missing_file_throws:
  assumes "get_prop options ''media_type'' = Inr mediaType"
    and "get_prop options ''path_to_photo'' = Inr file"
    and "readFileSync env file = Inl e \<or>
         (\<exists>mediaData. readFileSync env file = Inr mediaData \<and> statSync env file = Inl e)"
  shows "uploadPhoto env options tr = (Inl e, tr)"
  using assms by (auto simp: uploadPhoto_def)

theorem missing_file_throws_witness:
  "readFileSync (mock [Inr (Fulfil session)]) (JStr ''dog.png'') = Inl (JError ''ENOENT'') \<and>
   uploadPhoto (mock [Inr (Fulfil session)]) lost_photo [] = (Inl (JError ''ENOENT''), [])"
  using missing_file_throws
    [of lost_photo "JStr ''image/png''" "JStr ''dog.png''" "mock [Inr (Fulfil session)]"
        "JError ''ENOENT''" "[]"]
  by (simp add: mock_defs)

text \<open>
  C10. Two options values with the same \<^verbatim>\<open>media_type\<close> and the same
  \<^verbatim>\<open>path_to_photo\<close> give the same run of \<open>uploadPhoto\<close>, whatever else they hold; and
  the body of every request of a run has exactly the fields of one of the three steps:
  \<^verbatim>\<open>command\<close>, \<^verbatim>\<open>total_bytes\<close>, \<^verbatim>\<open>media_type\<close>; or \<^verbatim>\<open>command\<close>, \<^verbatim>\<open>media_id\<close>,
  \<^verbatim>\<open>media\<close>, \<^verbatim>\<open>segment_index\<close>; or \<^verbatim>\<open>command\<close>, \<^verbatim>\<open>media_id\<close>. So no other field
  of the options is forwarded.
\<close>

theorem options_fields_read:
  assumes "get_prop options ''media_type'' = get_prop options' ''media_type''"
    and "get_prop options ''path_to_photo'' = get_prop options' ''path_to_photo''"
  shows "uploadPhoto env options tr = uploadPhoto env options' tr \<and>
         (\<forall>(vb, p, body) \<in> set (requests (snd (uploadPhoto env options []))).
            field_names body = [''command'', ''total_bytes'', ''media_type''] \<or>
            field_names body = [''command'', ''media_id'', ''media'', ''segment_index''] \<or>
            field_names body = [''command'', ''media_id''])"
proof
  show "uploadPhoto env options tr = uploadPhoto env options' tr"
    by (simp add: uploadPhoto_def assms cong: sum.case_cong)
  show "\<forall>(vb, p, body) \<in> set (requests (snd (uploadPhoto env options []))).
            field_names body = [''command'', ''total_bytes'', ''media_type''] \<or>
            field_names body = [''command'', ''media_id'', ''media'', ''segment_index''] \<or>
            field_names body = [''command'', ''media_id'']"
    using upload_run_shape [of env options]
    by (elim disjE exE conjE) simp_all
qed

theorem options_fields_read_witness:
  "uploadPhoto (mock [Inr (Fulfil session), Inr (Fulfil JNull), Inr (Fulfil session)])
     cat_photo [] =
   uploadPhoto (mock [Inr (Fulfil session), Inr (Fulfil JNull), Inr (Fulfil session)])
     (JObj [(''path_to_photo'', JStr ''cat.png''), (''media_type'', JStr ''image/png'')]) [] \<and>
   map (\<lambda>(vb, p, body). field_names body)
     (requests (snd (uploadPhoto
        (mock [Inr (Fulfil session), Inr (Fulfil JNull), Inr (Fulfil session)]) cat_photo []))) =
     [[''command'', ''total_bytes'', ''media_type''],
      [''command'', ''media_id'', ''media'', ''segment_index''],
      [''command'', ''media_id'']]"
proof -
  let ?bare = "JObj [(''path_to_photo'', JStr ''cat.png''), (''media_type'', JStr ''image/png'')]"
  have t: "get_prop cat_photo ''media_type'' = get_prop ?bare ''media_type''"
    by (simp add: cat_photo_def)
  have f: "get_prop cat_photo ''path_to_photo'' = get_prop ?bare ''path_to_photo''"
    by (simp add: cat_photo_def)
  have same: "uploadPhoto (mock [Inr (Fulfil session), Inr (Fulfil JNull), Inr (Fulfil session)])
      cat_photo [] =
    uploadPhoto (mock [Inr (Fulfil session), Inr (Fulfil JNull), Inr (Fulfil session)])
      ?bare []"
    using options_fields_read [OF t f] by (rule conjunct1)
  have names: "map (\<lambda>(vb, p, body). field_names body)
     (requests (snd (uploadPhoto
        (mock [Inr (Fulfil session), Inr (Fulfil JNull), Inr (Fulfil session)]) cat_photo []))) =
     [[''command'', ''total_bytes'', ''media_type''],
      [''command'', ''media_id'', ''media'', ''segment_index''],
      [''command'', ''media_id'']]"
    by (simp add: mock_upload_ok)
  from same names show ?thesis by (rule conjI)
qed

end
